theory Spec2Isabelle
  imports Main "HOL-Library.AList"
begin

section \<open>Python values\<close>

text \<open>
  The values that flow through \<^verbatim>\<open>app.py\<close>: configuration entries, JWT identities
  and payload entries, JSON bodies. A dict is an association list in insertion order
  (its keys are strings everywhere in this file); a \<^verbatim>\<open>timedelta\<close> is kept as its
  total number of seconds. Floats are left out.
\<close>

datatype pyval =
    PNone
  | PBool bool
  | PInt int
  | PStr string
  | PTimedelta int
  | PList "pyval list"
  | PDict "(string \<times> pyval) list"

type_synonym dict = "(string \<times> pyval) list"

datatype py_error = KeyError string

text \<open>\<^verbatim>\<open>d[k]\<close>: raises KeyError when the key is missing.\<close>

definition getitem :: "dict \<Rightarrow> string \<Rightarrow> py_error + pyval" where
  "getitem d k = (case map_of d k of None \<Rightarrow> Inl (KeyError k) | Some v \<Rightarrow> Inr v)"

text \<open>\<^verbatim>\<open>d[k] = v\<close>: replaces the value of an existing key, appends a new one.\<close>

definition setitem :: "string \<Rightarrow> pyval \<Rightarrow> dict \<Rightarrow> dict" where
  "setitem k v d = AList.update k v d"

text \<open>\<^verbatim>\<open>str(i)\<close> for an int: its decimal digits, with a minus sign when negative.\<close>

fun digits :: "nat \<Rightarrow> string" where
  "digits n = (if n < 10 then [''0123456789'' ! n]
               else digits (n div 10) @ [''0123456789'' ! (n mod 10)])"

definition str_int :: "int \<Rightarrow> string" where
  "str_int i = (if i < 0 then CHR ''-'' # digits (nat (- i)) else digits (nat i))"

text \<open>
  \<^verbatim>\<open>v == s\<close> where \<^verbatim>\<open>s\<close> is a str: only a str with the same characters compares
  equal; None, bools, ints, timedeltas, lists and dicts never equal a str.
\<close>

fun py_eq_str :: "pyval \<Rightarrow> string \<Rightarrow> bool" where
  "py_eq_str (PStr t) s = (t = s)"
| "py_eq_str _ s = False"

text \<open>\<^verbatim>\<open>timedelta(hours = h)\<close>.\<close>

definition timedelta_hours :: "int \<Rightarrow> pyval" where
  "timedelta_hours h = PTimedelta (h * 3600)"

text \<open>\<^verbatim>\<open>os.getenv(k)\<close>: the variable's value, None when it is not set.\<close>

definition getenv :: "(string \<rightharpoonup> string) \<Rightarrow> string \<Rightarrow> pyval" where
  "getenv env k = (case env k of None \<Rightarrow> PNone | Some v \<Rightarrow> PStr v)"

section \<open>The JWT callbacks\<close>

text \<open>
  \<^verbatim>\<open>jsonify(d)\<close> builds a JSON response whose body is the dict; a handler returns it
  paired with the HTTP status.
\<close>

datatype response = JsonResponse (get_json: dict)

definition jsonify :: "dict \<Rightarrow> response" where
  "jsonify d = JsonResponse d"

definition add_claims_to_jwt :: "pyval \<Rightarrow> dict" where
  "add_claims_to_jwt identity =
     (if py_eq_str identity (str_int 1) then [(''is_admin'', PBool True)]
      else [(''is_admin'', PBool False)])"

text \<open>
  Modelled from the spec: the class \<^verbatim>\<open>TokenBlocklist\<close> of
  \<^verbatim>\<open>models/tokens_blocklist.py\<close> is not part of the sources. A row is a revoked-token
  record carrying the token's unique identifier; the table is the list of its rows.
  \<^verbatim>\<open>query.filter_by(jti=jti)\<close> keeps the rows whose identifier equals the argument,
  \<^verbatim>\<open>first()\<close> gives the first of them or None, and \<^verbatim>\<open>bool\<close> of that is true exactly
  for a row.
\<close>

record TokenBlocklist =
  jti :: pyval

definition filter_by_jti :: "pyval \<Rightarrow> TokenBlocklist list \<Rightarrow> TokenBlocklist list" where
  "filter_by_jti j rows = filter (\<lambda>r. jti r = j) rows"

definition first :: "'a list \<Rightarrow> 'a option" where
  "first rows = (case rows of [] \<Rightarrow> None | r # _ \<Rightarrow> Some r)"

definition bool_of :: "'a option \<Rightarrow> bool" where
  "bool_of r = (case r of None \<Rightarrow> False | Some _ \<Rightarrow> True)"

definition check_if_token_in_blocklist ::
  "dict \<Rightarrow> dict \<Rightarrow> TokenBlocklist list \<Rightarrow> py_error + bool" where
  "check_if_token_in_blocklist jwt_header jwt_payload rows =
     (case getitem jwt_payload ''jti'' of
        Inl e \<Rightarrow> Inl e
      | Inr j \<Rightarrow> Inr (bool_of (first (filter_by_jti j rows))))"

definition revoked_token_callback :: "dict \<Rightarrow> dict \<Rightarrow> response \<times> int" where
  "revoked_token_callback jwt_header jwt_payload =
     (jsonify [(''decsription'', PStr ''Token has been revoked''),
               (''error'', PStr ''token_revoked'')],
      401)"

definition expired_token_callback :: "dict \<Rightarrow> dict \<Rightarrow> response \<times> int" where
  "expired_token_callback jwt_header jwt_payload =
     (jsonify [(''message'', PStr ''Token has expired''),
               (''error'', PStr ''token_expired'')],
      401)"

definition invalid_token_callback :: "string \<Rightarrow> response \<times> int" where
  "invalid_token_callback error =
     (jsonify [(''message'', PStr ''Signature verification failed''),
               (''error'', PStr ''invalid_token'')],
      401)"

definition missing_token_callback :: "string \<Rightarrow> response \<times> int" where
  "missing_token_callback error =
     (jsonify [(''description'', PStr ''Request does not contain access token''),
               (''error'', PStr ''authorization_required'')],
      401)"

section \<open>Application assembly\<close>

text \<open>
  The application under construction: its configuration dict, the extensions bound to
  it in the order of their initialisation, the scheduler's state and jobs, the callbacks
  held by the JWT manager (one slot per loader decorator) and the blueprints registered
  on the API, in order. Imported objects are referred to by name.
\<close>

datatype extension = SQLAlchemy_db | Smorest_Api | Migrate | JWTManager | APScheduler

datatype blueprint =
  ProjectBlueprint | LabelBlueprint | UserBlueprint | GeminiBlueprint | ImageBlueprint

datatype job_func = Cleanup_revoked_tokens

record job =
  job_id :: string
  func :: job_func
  trigger :: string
  hour :: int
  minute :: int

datatype loader =
    Additional_claims_loader
  | Token_in_blocklist_loader
  | Revoked_token_loader
  | Expired_token_loader
  | Invalid_token_loader
  | Unauthorized_loader

datatype callback =
    Claims_callback "pyval \<Rightarrow> dict"
  | Blocklist_callback "dict \<Rightarrow> dict \<Rightarrow> TokenBlocklist list \<Rightarrow> py_error + bool"
  | Token_callback "dict \<Rightarrow> dict \<Rightarrow> response \<times> int"
  | Error_callback "string \<Rightarrow> response \<times> int"

record app =
  config :: dict
  extensions :: "extension list"
  scheduler_running :: bool
  jobs :: "job list"
  jwt_callbacks :: "(loader \<times> callback) list"
  blueprints :: "blueprint list"

definition Flask :: app where
  "Flask = \<lparr>config = [], extensions = [], scheduler_running = False, jobs = [],
            jwt_callbacks = [], blueprints = []\<rparr>"

definition set_config :: "string \<Rightarrow> pyval \<Rightarrow> app \<Rightarrow> app" where
  "set_config k v a = a\<lparr>config := setitem k v (config a)\<rparr>"

definition init_extension :: "extension \<Rightarrow> app \<Rightarrow> app" where
  "init_extension e a = a\<lparr>extensions := extensions a @ [e]\<rparr>"

definition scheduler_start :: "app \<Rightarrow> app" where
  "scheduler_start a = a\<lparr>scheduler_running := True\<rparr>"

definition add_job :: "string \<Rightarrow> job_func \<Rightarrow> string \<Rightarrow> int \<Rightarrow> int \<Rightarrow> app \<Rightarrow> app" where
  "add_job i f t h m a =
     a\<lparr>jobs := jobs a @ [\<lparr>job_id = i, func = f, trigger = t, hour = h, minute = m\<rparr>]\<rparr>"

definition register_callback :: "loader \<Rightarrow> callback \<Rightarrow> app \<Rightarrow> app" where
  "register_callback l c a = a\<lparr>jwt_callbacks := AList.update l c (jwt_callbacks a)\<rparr>"

definition register_blueprint :: "blueprint \<Rightarrow> app \<Rightarrow> app" where
  "register_blueprint b a = a\<lparr>blueprints := blueprints a @ [b]\<rparr>"

text \<open>
  \<^verbatim>\<open>create_app\<close>, statement by statement. The constructors and \<^verbatim>\<open>init_app\<close> calls
  of the extensions belong to their libraries and are taken to succeed: the definition
  gives the application that a call returns. (Flask-SQLAlchemy refuses an application
  whose database URI is None, so a call with \<^verbatim>\<open>DATABASE_URL\<close> unset returns none.)
\<close>

definition create_app :: "(string \<rightharpoonup> string) \<Rightarrow> pyval \<Rightarrow> app" where
  "create_app env db_url =
    (let a = Flask;
         a = set_config ''PROPAGATE_EXCEPTIONS'' (PBool True) a;
         a = set_config ''API_TITLE'' (PStr ''ProjPool -- Project Database'') a;
         a = set_config ''API_VERSION'' (PStr ''v1'') a;
         a = set_config ''OPENAPI_VERSION'' (PStr ''3.0.3'') a;
         a = set_config ''OPENAPI_URL_PREFIX'' (PStr ''/'') a;
         a = set_config ''OPENAPI_SWAGGER_UI_PATH'' (PStr ''/swagger-ui'') a;
         a = set_config ''OPENAPI_SWAGGER_UI_URL''
               (PStr ''https://cdn.jsdelivr.net/npm/swagger-ui-dist/'') a;
         a = set_config ''SQLALCHEMY_DATABASE_URI'' (getenv env ''DATABASE_URL'') a;
         a = set_config ''SQLALCHEMY_TRACK_MODIFICATIONS'' (PBool False) a;
         a = set_config ''GCS_BUCKET_NAME'' (getenv env ''GCS_BUCKET_NAME'') a;
         a = set_config ''GOOGLE_CLOUD_PROJECT_ID'' (getenv env ''GOOGLE_CLOUD_PROJECT_ID'') a;
         a = set_config ''GOOGLE_CLOUD_GEMINI_MODEL_ID''
               (getenv env ''GOOGLE_CLOUD_GEMINI_MODEL_ID'') a;
         a = set_config ''JWT_SECRET_KEY'' (getenv env ''JWT_SECRET_KEY'') a;
         a = init_extension SQLAlchemy_db a;
         a = init_extension Smorest_Api a;
         a = init_extension Migrate a;
         a = init_extension JWTManager a;
         a = set_config ''JWT_ACCESS_TOKEN_EXPIRES'' (timedelta_hours 3) a;
         a = set_config ''SCHEDULER_API_ENABLED'' (PBool True) a;
         a = init_extension APScheduler a;
         a = scheduler_start a;
         a = add_job ''cleanup_revoked_tokens'' Cleanup_revoked_tokens ''cron'' 3 0 a;
         a = register_callback Additional_claims_loader (Claims_callback add_claims_to_jwt) a;
         a = register_callback Token_in_blocklist_loader
               (Blocklist_callback check_if_token_in_blocklist) a;
         a = register_callback Revoked_token_loader (Token_callback revoked_token_callback) a;
         a = register_callback Expired_token_loader (Token_callback expired_token_callback) a;
         a = register_callback Invalid_token_loader (Error_callback invalid_token_callback) a;
         a = register_callback Unauthorized_loader (Error_callback missing_token_callback) a;
         a = register_blueprint ImageBlueprint a;
         a = register_blueprint LabelBlueprint a;
         a = register_blueprint ProjectBlueprint a;
         a = register_blueprint UserBlueprint a;
         a = register_blueprint GeminiBlueprint a
     in a)"

section \<open>Properties\<close>

subsection \<open>Auxiliary facts\<close>

lemma str_int_1: "str_int 1 = ''1''"
  by (simp add: str_int_def)

lemma bool_of_first: "bool_of (first ys) = (ys \<noteq> [])"
  by (cases ys) (simp_all add: bool_of_def first_def)

lemma bool_of_first_filter: "bool_of (first (filter P xs)) = (\<exists>x\<in>set xs. P x)"
  by (simp add: bool_of_first filter_empty_conv)

lemmas assembly_defs =
  create_app_def Flask_def set_config_def init_extension_def scheduler_start_def
  add_job_def register_callback_def register_blueprint_def setitem_def

text \<open>The configuration dict that application assembly leaves behind, entry by entry.\<close>

lemma config_create_app:
  "config (create_app env db_url) =
     [(''PROPAGATE_EXCEPTIONS'', PBool True),
      (''API_TITLE'', PStr ''ProjPool -- Project Database''),
      (''API_VERSION'', PStr ''v1''),
      (''OPENAPI_VERSION'', PStr ''3.0.3''),
      (''OPENAPI_URL_PREFIX'', PStr ''/''),
      (''OPENAPI_SWAGGER_UI_PATH'', PStr ''/swagger-ui''),
      (''OPENAPI_SWAGGER_UI_URL'', PStr ''https://cdn.jsdelivr.net/npm/swagger-ui-dist/''),
      (''SQLALCHEMY_DATABASE_URI'', getenv env ''DATABASE_URL''),
      (''SQLALCHEMY_TRACK_MODIFICATIONS'', PBool False),
      (''GCS_BUCKET_NAME'', getenv env ''GCS_BUCKET_NAME''),
      (''GOOGLE_CLOUD_PROJECT_ID'', getenv env ''GOOGLE_CLOUD_PROJECT_ID''),
      (''GOOGLE_CLOUD_GEMINI_MODEL_ID'', getenv env ''GOOGLE_CLOUD_GEMINI_MODEL_ID''),
      (''JWT_SECRET_KEY'', getenv env ''JWT_SECRET_KEY''),
      (''JWT_ACCESS_TOKEN_EXPIRES'', timedelta_hours 3),
      (''SCHEDULER_API_ENABLED'', PBool True)]"
  by (simp add: assembly_defs)

text \<open>The slots of the JWT manager after assembly: one callback per loader decorator.\<close>

lemma jwt_callbacks_create_app:
  "jwt_callbacks (create_app env db_url) =
     [(Additional_claims_loader, Claims_callback add_claims_to_jwt),
      (Token_in_blocklist_loader, Blocklist_callback check_if_token_in_blocklist),
      (Revoked_token_loader, Token_callback revoked_token_callback),
      (Expired_token_loader, Token_callback expired_token_callback),
      (Invalid_token_loader, Error_callback invalid_token_callback),
      (Unauthorized_loader, Error_callback missing_token_callback)]"
  by (simp add: assembly_defs)

lemma blueprints_create_app:
  "blueprints (create_app env db_url) =
     [ImageBlueprint, LabelBlueprint, ProjectBlueprint, UserBlueprint, GeminiBlueprint]"
  by (simp add: assembly_defs)

text \<open>
  The extensions are bound in the order database, API documentation, migrations, JWT
  manager, scheduler, and the scheduler has been started.
\<close>

lemma extensions_create_app:
  "extensions (create_app env db_url) =
     [SQLAlchemy_db, Smorest_Api, Migrate, JWTManager, APScheduler]
   \<and> scheduler_running (create_app env db_url)"
  by (simp add: assembly_defs)

subsection \<open>The revocation check\<close>

text \<open>
  C1: for every token identifier carried by the payload under \<^verbatim>\<open>"jti"\<close>, the
  revocation check returns true when a revoked-token record with that identifier is in
  the blocklist table, and false when no record has it.
\<close>

theorem check_if_token_in_blocklist_present:
  "map_of jwt_payload ''jti'' = Some j \<Longrightarrow>
   check_if_token_in_blocklist jwt_header jwt_payload rows = Inr (j \<in> jti ` set rows)"
  by (auto simp add: check_if_token_in_blocklist_def getitem_def filter_by_jti_def
      bool_of_first_filter)

theorem check_if_token_in_blocklist_present_witness:
  "check_if_token_in_blocklist [(''alg'', PStr ''HS256'')]
     [(''sub'', PStr ''1''), (''jti'', PStr ''abc'')]
     [\<lparr>jti = PStr ''xyz''\<rparr>, \<lparr>jti = PStr ''abc''\<rparr>] = Inr True
   \<and> check_if_token_in_blocklist [(''alg'', PStr ''HS256'')]
     [(''sub'', PStr ''1''), (''jti'', PStr ''abd'')]
     [\<lparr>jti = PStr ''xyz''\<rparr>, \<lparr>jti = PStr ''abc''\<rparr>] = Inr False"
  using
    check_if_token_in_blocklist_present
      [of "[(''sub'', PStr ''1''), (''jti'', PStr ''abc'')]" "PStr ''abc''"
          "[(''alg'', PStr ''HS256'')]" "[\<lparr>jti = PStr ''xyz''\<rparr>, \<lparr>jti = PStr ''abc''\<rparr>]"]
    check_if_token_in_blocklist_present
      [of "[(''sub'', PStr ''1''), (''jti'', PStr ''abd'')]" "PStr ''abd''"
          "[(''alg'', PStr ''HS256'')]" "[\<lparr>jti = PStr ''xyz''\<rparr>, \<lparr>jti = PStr ''abc''\<rparr>]"]
  by simp

text \<open>
  C9: the revocation check returns a boolean exactly when the payload has the key
  \<^verbatim>\<open>"jti"\<close>; on a payload without it the lookup raises KeyError and no boolean is
  returned.
\<close>

theorem check_if_token_in_blocklist_needs_jti:
  "(''jti'' \<notin> fst ` set jwt_payload \<longrightarrow>
      check_if_token_in_blocklist jwt_header jwt_payload rows = Inl (KeyError ''jti''))
   \<and> ((\<exists>b. check_if_token_in_blocklist jwt_header jwt_payload rows = Inr b)
        = (''jti'' \<in> fst ` set jwt_payload))"
proof (cases "map_of jwt_payload ''jti''")
  case None
  then have "''jti'' \<notin> fst ` set jwt_payload"
    by (simp add: map_of_eq_None_iff)
  with None show ?thesis
    by (simp add: check_if_token_in_blocklist_def getitem_def)
next
  case (Some j)
  then have "''jti'' \<in> fst ` set jwt_payload"
    by (metis map_of_eq_None_iff option.distinct(1))
  with Some show ?thesis
    by (simp add: check_if_token_in_blocklist_def getitem_def)
qed

theorem check_if_token_in_blocklist_needs_jti_witness:
  "check_if_token_in_blocklist [(''alg'', PStr ''HS256'')] [(''sub'', PStr ''1'')]
     [\<lparr>jti = PStr ''abc''\<rparr>] = Inl (KeyError ''jti'')
   \<and> \<not> (\<exists>b. check_if_token_in_blocklist [(''alg'', PStr ''HS256'')] [(''sub'', PStr ''1'')]
           [\<lparr>jti = PStr ''abc''\<rparr>] = Inr b)"
  using
    check_if_token_in_blocklist_needs_jti
      [of "[(''sub'', PStr ''1'')]" "[(''alg'', PStr ''HS256'')]" "[\<lparr>jti = PStr ''abc''\<rparr>]"]
  by simp

subsection \<open>Claim augmentation\<close>

text \<open>
  C3: for every identity, claim augmentation returns \<^verbatim>\<open>{"is_admin": True}\<close> when the
  identity is the string \<^verbatim>\<open>"1"\<close> and \<^verbatim>\<open>{"is_admin": False}\<close> for every other
  identity.
\<close>

theorem add_claims_to_jwt_is_admin:
  "add_claims_to_jwt identity = [(''is_admin'', PBool (identity = PStr ''1''))]"
  by (cases identity) (simp_all add: add_claims_to_jwt_def str_int_1)

text \<open>
  C10: the admin check compares with the string \<^verbatim>\<open>str(1)\<close>, so an identity that is
  not a string, the integer 1 among them, gets \<^verbatim>\<open>{"is_admin": False}\<close>.
\<close>

theorem add_claims_to_jwt_non_string:
  "(\<forall>s. identity \<noteq> PStr s) \<Longrightarrow> add_claims_to_jwt identity = [(''is_admin'', PBool False)]"
  by (cases identity) (simp_all add: add_claims_to_jwt_def)

theorem add_claims_to_jwt_non_string_witness:
  "add_claims_to_jwt (PInt 1) = [(''is_admin'', PBool False)]"
  using add_claims_to_jwt_non_string [of "PInt 1"] by simp

subsection \<open>The failure handlers\<close>

text \<open>
  C2: on every input each of the four failure handlers returns status 401 and its own
  error code: \<^verbatim>\<open>authorization_required\<close> for a missing token, \<^verbatim>\<open>invalid_token\<close>
  for an invalid one, \<^verbatim>\<open>token_expired\<close> for an expired one and \<^verbatim>\<open>token_revoked\<close>
  for a revoked one. These four functions are the ones application assembly registers
  under the unauthorized, invalid-token, expired-token and revoked-token loaders.
\<close>

theorem failure_handlers_401:
  "snd (missing_token_callback error) = 401
   \<and> getitem (get_json (fst (missing_token_callback error))) ''error''
       = Inr (PStr ''authorization_required'')
   \<and> snd (invalid_token_callback error) = 401
   \<and> getitem (get_json (fst (invalid_token_callback error))) ''error''
       = Inr (PStr ''invalid_token'')
   \<and> snd (expired_token_callback jwt_header jwt_payload) = 401
   \<and> getitem (get_json (fst (expired_token_callback jwt_header jwt_payload))) ''error''
       = Inr (PStr ''token_expired'')
   \<and> snd (revoked_token_callback jwt_header jwt_payload) = 401
   \<and> getitem (get_json (fst (revoked_token_callback jwt_header jwt_payload))) ''error''
       = Inr (PStr ''token_revoked'')
   \<and> map_of (jwt_callbacks (create_app env db_url)) Unauthorized_loader
       = Some (Error_callback missing_token_callback)
   \<and> map_of (jwt_callbacks (create_app env db_url)) Invalid_token_loader
       = Some (Error_callback invalid_token_callback)
   \<and> map_of (jwt_callbacks (create_app env db_url)) Expired_token_loader
       = Some (Token_callback expired_token_callback)
   \<and> map_of (jwt_callbacks (create_app env db_url)) Revoked_token_loader
       = Some (Token_callback revoked_token_callback)"
proof -
  have status_and_code:
    "snd (missing_token_callback error) = 401"
    "getitem (get_json (fst (missing_token_callback error))) ''error''
       = Inr (PStr ''authorization_required'')"
    "snd (invalid_token_callback error) = 401"
    "getitem (get_json (fst (invalid_token_callback error))) ''error''
       = Inr (PStr ''invalid_token'')"
    "snd (expired_token_callback jwt_header jwt_payload) = 401"
    "getitem (get_json (fst (expired_token_callback jwt_header jwt_payload))) ''error''
       = Inr (PStr ''token_expired'')"
    "snd (revoked_token_callback jwt_header jwt_payload) = 401"
    "getitem (get_json (fst (revoked_token_callback jwt_header jwt_payload))) ''error''
       = Inr (PStr ''token_revoked'')"
    by (simp_all add: missing_token_callback_def invalid_token_callback_def
        expired_token_callback_def revoked_token_callback_def jsonify_def getitem_def)
  have registered:
    "map_of (jwt_callbacks (create_app env db_url)) Unauthorized_loader
       = Some (Error_callback missing_token_callback)"
    "map_of (jwt_callbacks (create_app env db_url)) Invalid_token_loader
       = Some (Error_callback invalid_token_callback)"
    "map_of (jwt_callbacks (create_app env db_url)) Expired_token_loader
       = Some (Token_callback expired_token_callback)"
    "map_of (jwt_callbacks (create_app env db_url)) Revoked_token_loader
       = Some (Token_callback revoked_token_callback)"
    by (simp_all add: jwt_callbacks_create_app)
  from status_and_code registered show ?thesis
    by simp
qed

text \<open>
  C4: the body of every 401 response is a JSON object with exactly two keys, a text key
  and \<^verbatim>\<open>"error"\<close> with the error code. The text key is \<^verbatim>\<open>"description"\<close> for a
  missing token and \<^verbatim>\<open>"message"\<close> for an invalid or expired one; the revoked-token
  handler spells it \<^verbatim>\<open>"decsription"\<close>, with the text "Token has been revoked" and the
  code \<^verbatim>\<open>token_revoked\<close>.
\<close>

theorem failure_handlers_body:
  "get_json (fst (missing_token_callback error)) =
     [(''description'', PStr ''Request does not contain access token''),
      (''error'', PStr ''authorization_required'')]
   \<and> get_json (fst (invalid_token_callback error)) =
     [(''message'', PStr ''Signature verification failed''),
      (''error'', PStr ''invalid_token'')]
   \<and> get_json (fst (expired_token_callback jwt_header jwt_payload)) =
     [(''message'', PStr ''Token has expired''), (''error'', PStr ''token_expired'')]
   \<and> get_json (fst (revoked_token_callback jwt_header jwt_payload)) =
     [(''decsription'', PStr ''Token has been revoked''), (''error'', PStr ''token_revoked'')]
   \<and> map fst (get_json (fst (missing_token_callback error))) = [''description'', ''error'']
   \<and> map fst (get_json (fst (invalid_token_callback error))) = [''message'', ''error'']
   \<and> map fst (get_json (fst (expired_token_callback jwt_header jwt_payload)))
       = [''message'', ''error'']
   \<and> map fst (get_json (fst (revoked_token_callback jwt_header jwt_payload)))
       = [''decsription'', ''error'']"
  by (simp add: missing_token_callback_def invalid_token_callback_def
      expired_token_callback_def revoked_token_callback_def jsonify_def)

subsection \<open>Application assembly\<close>

text \<open>
  C5: application assembly registers exactly one scheduled job: its id is
  \<^verbatim>\<open>cleanup_revoked_tokens\<close>, its trigger is a cron trigger at hour 3 and minute 0,
  and its body is the imported function \<^verbatim>\<open>cleanup_revoked_tokens\<close>.
\<close>

theorem create_app_jobs:
  "jobs (create_app env db_url) =
     [\<lparr>job_id = ''cleanup_revoked_tokens'', func = Cleanup_revoked_tokens,
       trigger = ''cron'', hour = 3, minute = 0\<rparr>]"
  by (simp add: assembly_defs)

text \<open>
  C6: after assembly the access-token lifetime in the configuration is a timedelta of
  exactly 3 hours (10800 seconds), and the JWT signing key is the value of the
  environment variable \<^verbatim>\<open>JWT_SECRET_KEY\<close> (None when the variable is not set).
\<close>

theorem create_app_jwt_config:
  "getitem (config (create_app env db_url)) ''JWT_ACCESS_TOKEN_EXPIRES''
     = Inr (timedelta_hours 3)
   \<and> timedelta_hours 3 = PTimedelta (3 * 60 * 60)
   \<and> getitem (config (create_app env db_url)) ''JWT_SECRET_KEY''
     = Inr (getenv env ''JWT_SECRET_KEY'')
   \<and> getenv env ''JWT_SECRET_KEY''
     = (case env ''JWT_SECRET_KEY'' of None \<Rightarrow> PNone | Some k \<Rightarrow> PStr k)"
proof -
  have "getitem (config (create_app env db_url)) ''JWT_ACCESS_TOKEN_EXPIRES''
          = Inr (timedelta_hours 3)"
    by (simp add: config_create_app getitem_def)
  moreover have "timedelta_hours 3 = PTimedelta (3 * 60 * 60)"
    by (simp add: timedelta_hours_def)
  moreover have "getitem (config (create_app env db_url)) ''JWT_SECRET_KEY''
          = Inr (getenv env ''JWT_SECRET_KEY'')"
    by (simp add: config_create_app getitem_def)
  moreover have "getenv env ''JWT_SECRET_KEY''
          = (case env ''JWT_SECRET_KEY'' of None \<Rightarrow> PNone | Some k \<Rightarrow> PStr k)"
    by (simp add: getenv_def)
  ultimately show ?thesis
    by simp
qed

text \<open>
  C8: the argument \<^verbatim>\<open>db_url\<close> is ignored. Two calls in the same environment with any
  two values of \<^verbatim>\<open>db_url\<close> give the same configuration (indeed the same application),
  and the database URI is the value of the environment variable \<^verbatim>\<open>DATABASE_URL\<close>
  whatever the argument is.
\<close>

theorem create_app_ignores_db_url:
  "config (create_app env db_url) = config (create_app env db_url')
   \<and> create_app env db_url = create_app env db_url'
   \<and> getitem (config (create_app env db_url)) ''SQLALCHEMY_DATABASE_URI''
     = Inr (getenv env ''DATABASE_URL'')"
proof -
  have same: "create_app env db_url = create_app env db_url'"
    by (simp add: create_app_def)
  have "getitem (config (create_app env db_url)) ''SQLALCHEMY_DATABASE_URI''
          = Inr (getenv env ''DATABASE_URL'')"
    by (simp add: config_create_app getitem_def)
  with same show ?thesis
    by simp
qed

text \<open>
  C7, as stated, asks for five JWT callbacks. Assembly registers six (claim
  augmentation, the revocation check, and the handlers for revoked, expired, invalid and
  missing tokens). The count of five fails for two calls in an environment that sets all
  five variables, where the database URI handed to the ORM is the string
  \<^verbatim>\<open>sqlite:///:memory:\<close> and both calls return an application.
\<close>

theorem create_app_five_callbacks_counterexample:
  "getitem
     (config (create_app
        (map_of [(''DATABASE_URL'', ''sqlite:///:memory:''),
                 (''GCS_BUCKET_NAME'', ''bucket''),
                 (''GOOGLE_CLOUD_PROJECT_ID'', ''project''),
                 (''GOOGLE_CLOUD_GEMINI_MODEL_ID'', ''gemini''),
                 (''JWT_SECRET_KEY'', ''secret'')]) PNone))
     ''SQLALCHEMY_DATABASE_URI'' = Inr (PStr ''sqlite:///:memory:'')
   \<and> \<not> (blueprints (create_app
              (map_of [(''DATABASE_URL'', ''sqlite:///:memory:''),
                       (''GCS_BUCKET_NAME'', ''bucket''),
                       (''GOOGLE_CLOUD_PROJECT_ID'', ''project''),
                       (''GOOGLE_CLOUD_GEMINI_MODEL_ID'', ''gemini''),
                       (''JWT_SECRET_KEY'', ''secret'')]) PNone)
          = blueprints (create_app
              (map_of [(''DATABASE_URL'', ''sqlite:///:memory:''),
                       (''GCS_BUCKET_NAME'', ''bucket''),
                       (''GOOGLE_CLOUD_PROJECT_ID'', ''project''),
                       (''GOOGLE_CLOUD_GEMINI_MODEL_ID'', ''gemini''),
                       (''JWT_SECRET_KEY'', ''secret'')]) PNone)
        \<and> jwt_callbacks (create_app
              (map_of [(''DATABASE_URL'', ''sqlite:///:memory:''),
                       (''GCS_BUCKET_NAME'', ''bucket''),
                       (''GOOGLE_CLOUD_PROJECT_ID'', ''project''),
                       (''GOOGLE_CLOUD_GEMINI_MODEL_ID'', ''gemini''),
                       (''JWT_SECRET_KEY'', ''secret'')]) PNone)
          = jwt_callbacks (create_app
              (map_of [(''DATABASE_URL'', ''sqlite:///:memory:''),
                       (''GCS_BUCKET_NAME'', ''bucket''),
                       (''GOOGLE_CLOUD_PROJECT_ID'', ''project''),
                       (''GOOGLE_CLOUD_GEMINI_MODEL_ID'', ''gemini''),
                       (''JWT_SECRET_KEY'', ''secret'')]) PNone)
        \<and> length (blueprints (create_app
              (map_of [(''DATABASE_URL'', ''sqlite:///:memory:''),
                       (''GCS_BUCKET_NAME'', ''bucket''),
                       (''GOOGLE_CLOUD_PROJECT_ID'', ''project''),
                       (''GOOGLE_CLOUD_GEMINI_MODEL_ID'', ''gemini''),
                       (''JWT_SECRET_KEY'', ''secret'')]) PNone)) = 5
        \<and> length (jwt_callbacks (create_app
              (map_of [(''DATABASE_URL'', ''sqlite:///:memory:''),
                       (''GCS_BUCKET_NAME'', ''bucket''),
                       (''GOOGLE_CLOUD_PROJECT_ID'', ''project''),
                       (''GOOGLE_CLOUD_GEMINI_MODEL_ID'', ''gemini''),
                       (''JWT_SECRET_KEY'', ''secret'')]) PNone)) = 5)"
proof -
  let ?env = "map_of [(''DATABASE_URL'', ''sqlite:///:memory:''),
                      (''GCS_BUCKET_NAME'', ''bucket''),
                      (''GOOGLE_CLOUD_PROJECT_ID'', ''project''),
                      (''GOOGLE_CLOUD_GEMINI_MODEL_ID'', ''gemini''),
                      (''JWT_SECRET_KEY'', ''secret'')]"
  have uri: "getitem (config (create_app ?env PNone)) ''SQLALCHEMY_DATABASE_URI''
               = Inr (PStr ''sqlite:///:memory:'')"
    by (simp add: config_create_app getitem_def getenv_def)
  have "length (jwt_callbacks (create_app ?env PNone)) = 6"
    by (simp add: jwt_callbacks_create_app)
  then have "length (jwt_callbacks (create_app ?env PNone)) \<noteq> 5"
    by simp
  with uri show ?thesis
    by blast
qed

text \<open>
  C7, amended: two calls of \<^verbatim>\<open>create_app\<close> in the same environment register the same
  five blueprints (image, label, project, user, AI-assist) in the same order and the same
  six JWT callbacks: claim augmentation, the revocation check, and one handler each for
  revoked, expired, invalid and missing tokens.
\<close>

theorem create_app_deterministic:
  "blueprints (create_app env db_url) = blueprints (create_app env db_url')
   \<and> blueprints (create_app env db_url) =
       [ImageBlueprint, LabelBlueprint, ProjectBlueprint, UserBlueprint, GeminiBlueprint]
   \<and> jwt_callbacks (create_app env db_url) = jwt_callbacks (create_app env db_url')
   \<and> jwt_callbacks (create_app env db_url) =
       [(Additional_claims_loader, Claims_callback add_claims_to_jwt),
        (Token_in_blocklist_loader, Blocklist_callback check_if_token_in_blocklist),
        (Revoked_token_loader, Token_callback revoked_token_callback),
        (Expired_token_loader, Token_callback expired_token_callback),
        (Invalid_token_loader, Error_callback invalid_token_callback),
        (Unauthorized_loader, Error_callback missing_token_callback)]
   \<and> length (blueprints (create_app env db_url)) = 5
   \<and> length (jwt_callbacks (create_app env db_url)) = 6"
  by (simp add: jwt_callbacks_create_app blueprints_create_app)

end
